theory Spec2Isabelle
  imports Complex_Main
begin

section \<open>Common-emitter amplifier analysis: the two Python variants\<close>

text \<open>
  The repository holds the same analysis pipeline twice: a run-once script
  (\<^verbatim>\<open>CommonEmitterAnalysis.py\<close>), whose stage functions print every value they
  compute and read some of their operands from module-level globals, and a tkinter
  application (\<^verbatim>\<open>CommonEmitterAnalysisApp.py\<close>), whose stage functions take
  every operand as a parameter and whose \<^verbatim>\<open>calculate\<close> callback displays the
  results.

  Numbers: every quantity is a Python \<^verbatim>\<open>float\<close>. It is modelled as a
  \<^typ>\<open>real\<close>: the arithmetic is exact, so rounding, overflow, infinities and
  NaN are outside the model. The literals \<^verbatim>\<open>0.7\<close> and \<^verbatim>\<open>.025\<close> are the
  rationals \<open>7/10\<close> and \<open>1/40\<close>.

  Errors: Python's \<^verbatim>\<open>/\<close> raises \<^verbatim>\<open>ZeroDivisionError\<close> on a zero
  divisor (also on floats), and reading a global that has not been assigned raises
  \<^verbatim>\<open>NameError\<close>. Every stage returns \<open>py_error + result\<close>, \<open>Inl\<close> being the
  exception; each division of the source is guarded by a test of its divisor, in the
  order in which the source evaluates them.
\<close>

datatype py_error = ZeroDivisionError | NameError

subsection \<open>The application variant (CommonEmitterAnalysisApp.py)\<close>

definition DCAnalysis_App ::
  "real \<Rightarrow> real \<Rightarrow> real \<Rightarrow> real \<Rightarrow> real \<Rightarrow> real \<Rightarrow> real \<Rightarrow> real \<Rightarrow> real
    \<Rightarrow> py_error + (real \<times> real \<times> real \<times> real \<times> real)" where
  "DCAnalysis_App VCC Beta RS R1 R2 RE1 RE2 RC RL =
    (if R2 + R1 = 0 then Inl ZeroDivisionError else
     let VB = VCC * (R2 / (R2 + R1));
         VE = VB - 0.7 in
     if RE1 + RE2 = 0 then Inl ZeroDivisionError else
     let ICEQ = VE / (RE1 + RE2);
         VC = VCC - (ICEQ * RC);
         VCEQ = VC - VE in
     Inr (VB, VE, ICEQ, VC, VCEQ))"

definition ACAnalysis_App ::
  "real \<Rightarrow> real \<Rightarrow> real \<Rightarrow> real \<Rightarrow> real \<Rightarrow> real \<Rightarrow> real \<Rightarrow> real \<Rightarrow> real \<Rightarrow> real
    \<Rightarrow> real \<Rightarrow> real \<Rightarrow> real \<Rightarrow> real
    \<Rightarrow> py_error + (real \<times> real \<times> real \<times> real \<times> real \<times> real \<times> real \<times> real \<times> real)" where
  "ACAnalysis_App ICEQ VCC Beta RS R1 R2 RE1 RE2 RC RL Zg Vs VA Frequency =
    (if ICEQ = 0 then Inl ZeroDivisionError else
     let ro = VA / ICEQ;
         re = 0.025 / ICEQ in
     if RC = 0 \<or> RL = 0 \<or> (1 / RC) + (1 / RL) = 0 then Inl ZeroDivisionError else
     let rc = 1 / ((1 / RC) + (1 / RL));
         Zbase = (RE1 + re) * Beta in
     if R1 = 0 \<or> R2 = 0 \<or> Beta * (RE1 + re) = 0
        \<or> (1 / R1) + (1 / R2) + (1 / (Beta * (RE1 + re))) = 0
     then Inl ZeroDivisionError else
     let Zin = RS + (1 / ((1 / R1) + (1 / R2) + (1 / (Beta * (RE1 + re))))) in
     if ro = 0 \<or> (1 / RC) + (1 / RL) + (1 / ro) = 0 then Inl ZeroDivisionError else
     let Zout = 1 / ((1 / RC) + (1 / RL) + (1 / ro)) in
     if Zin + Zg + RS = 0 then Inl ZeroDivisionError else
     let Vin = Vs * (Zin / (Zin + Zg + RS)) in
     if RE1 + re = 0 then Inl ZeroDivisionError else
     let Av = rc / (RE1 + re);
         Vout = Av * Vin in
     Inr (ro, re, rc, Zbase, Zin, Zout, Vin, Av, Vout))"

definition Qpoint_App :: "real \<Rightarrow> real \<Rightarrow> real \<Rightarrow> real \<Rightarrow> py_error + real" where
  "Qpoint_App VCC VE rc RC =
    (if VCC - VE = 0 then Inl ZeroDivisionError else
     let REop = VE * (RC + rc) / (VCC - VE) in
     Inr REop)"

definition MPP_App :: "real \<Rightarrow> real \<Rightarrow> real \<Rightarrow> real" where
  "MPP_App VCEQ ICEQ rc =
    (let Mpp = min (2 * (ICEQ * rc)) (2 * VCEQ) in Mpp)"

definition CurrentDrain_App :: "real \<Rightarrow> real \<Rightarrow> real \<Rightarrow> real \<Rightarrow> py_error + (real \<times> real)" where
  "CurrentDrain_App VCC ICEQ R1 R2 =
    (if R1 + R2 = 0 then Inl ZeroDivisionError else
     let Ibias = VCC / (R1 + R2);
         IS = Ibias + ICEQ in
     Inr (Ibias, IS))"

definition Power_App ::
  "real \<Rightarrow> real \<Rightarrow> real \<Rightarrow> real \<Rightarrow> real \<Rightarrow> real \<Rightarrow> py_error + (real \<times> real \<times> real \<times> real)" where
  "Power_App VCEQ ICEQ Mpp RL VCC IS =
    (let PD = VCEQ * ICEQ in
     if 8 * RL = 0 then Inl ZeroDivisionError else
     let PL = (Mpp ^ 2) / (8 * RL);
         PS = VCC * IS in
     if PS = 0 then Inl ZeroDivisionError else
     let Efficiency = PL / PS * 100 in
     Inr (PD, PL, PS, Efficiency))"

definition DCLoadline_App :: "real \<Rightarrow> real \<Rightarrow> real \<Rightarrow> py_error + (real \<times> real)" where
  "DCLoadline_App VCC VE RC =
    (let VCEcutoff = VCC - VE in
     if RC = 0 then Inl ZeroDivisionError else
     let ICsaturation = (VCC - VE) / RC in
     Inr (VCEcutoff, ICsaturation))"

definition ACLoadline_App :: "real \<Rightarrow> real \<Rightarrow> real \<Rightarrow> py_error + (real \<times> real)" where
  "ACLoadline_App VCEQ ICEQ rc =
    (let ACcutoff = VCEQ + (ICEQ * rc) in
     if rc = 0 then Inl ZeroDivisionError else
     let ACsaturation = ICEQ + (VCEQ / rc) in
     Inr (ACcutoff, ACsaturation))"

subsection \<open>Plot data (numpy)\<close>

text \<open>
  \<^verbatim>\<open>np.linspace(start, stop)\<close> with its default \<^verbatim>\<open>num=50\<close> and
  \<^verbatim>\<open>endpoint=True\<close>: 50 samples \<open>start + i * step\<close> with
  \<open>step = (stop - start) / 49\<close>, the last one set to \<open>stop\<close>.
\<close>

definition np_linspace :: "real \<Rightarrow> real \<Rightarrow> real list" where
  "np_linspace start stop =
    (let step = (stop - start) / 49 in
     map (\<lambda>i. if i = 49 then stop else start + real i * step) [0..<50])"

text \<open>
  \<^verbatim>\<open>np.arange(start, stop, step)\<close> on floats: \<open>\<lceil>(stop - start) / step\<rceil>\<close>
  samples (none when that is not positive), the \<open>i\<close>-th being \<open>start + i * step\<close>.
  The only call of the source has \<open>step = 1 / fs1\<close>, which is not zero.
\<close>

definition np_arange :: "real \<Rightarrow> real \<Rightarrow> real \<Rightarrow> real list" where
  "np_arange start stop step =
    map (\<lambda>i. start + real i * step) [0..<nat \<lceil>(stop - start) / step\<rceil>]"

text \<open>What \<^verbatim>\<open>Loadlineplot\<close> hands to matplotlib: the four sample arrays and the axis limits.\<close>

record loadline_plot =
  xDC :: "real list"
  yDC :: "real list"
  xAC :: "real list"
  yAC :: "real list"
  xlim :: "real \<times> real"
  ylim :: "real \<times> real"

definition Loadlineplot_App ::
  "real \<Rightarrow> real \<Rightarrow> real \<Rightarrow> real \<Rightarrow> real \<Rightarrow> real \<Rightarrow> py_error + loadline_plot" where
  "Loadlineplot_App VCEcutoff ICsaturation ACcutoff ACsaturation VCC rc =
    (if rc = 0 then Inl ZeroDivisionError else
     Inr \<lparr> xDC = np_linspace 0 VCEcutoff,
           yDC = np_linspace ICsaturation 0,
           xAC = np_linspace ACcutoff 0,
           yAC = np_linspace 0 ACsaturation,
           xlim = (0, VCC),
           ylim = (0, VCC / rc) \<rparr>)"

text \<open>What \<^verbatim>\<open>Waveforms\<close> plots: the time grid \<open>t1\<close>, the input \<open>a1\<close> and the output \<open>a2\<close>.\<close>

definition Waveforms_App ::
  "real \<Rightarrow> real \<Rightarrow> real \<Rightarrow> real \<Rightarrow> py_error + (real list \<times> real list \<times> real list)" where
  "Waveforms_App Duration Frequency Vs Vout =
    (let T1 = Duration;
         fs1 = 50 * Frequency in
     if fs1 = 0 then Inl ZeroDivisionError else
     let Ts1 = 1 / fs1;
         t1 = np_arange 0 (T1 + Ts1) Ts1;
         a1 = map (\<lambda>t. Vs * sin (2 * pi * Frequency * t)) t1;
         a2 = map (\<lambda>t. -1 * Vout * sin (2 * pi * Frequency * t)) t1 in
     Inr (t1, a1, a2))"

subsection \<open>The callback \<^verbatim>\<open>calculate\<close> of the application\<close>

text \<open>
  The fourteen entry fields, already converted by \<^verbatim>\<open>float(...)\<close>, in the order in
  which \<^verbatim>\<open>calculate\<close> reads them.
\<close>

record input =
  i_VCC :: real
  i_RS :: real
  i_R1 :: real
  i_R2 :: real
  i_RE1 :: real
  i_RE2 :: real
  i_RC :: real
  i_RL :: real
  i_Beta :: real
  i_VA :: real
  i_Zg :: real
  i_Vs :: real
  i_Frequency :: real
  i_Duration :: real

text \<open>The twenty-six values that \<^verbatim>\<open>calculate\<close> writes into the labels.\<close>

record results =
  r_VB :: real
  r_VE :: real
  r_ICEQ :: real
  r_VC :: real
  r_VCEQ :: real
  r_ro :: real
  r_re :: real
  r_rc :: real
  r_Zbase :: real
  r_Zin :: real
  r_Zout :: real
  r_Vin :: real
  r_Av :: real
  r_Vout :: real
  r_REop :: real
  r_Mpp :: real
  r_Ibias :: real
  r_IS :: real
  r_PD :: real
  r_PL :: real
  r_PS :: real
  r_Efficiency :: real
  r_VCEcutoff :: real
  r_ICsaturation :: real
  r_ACcutoff :: real
  r_ACsaturation :: real

definition bind_err :: "py_error + 'a \<Rightarrow> ('a \<Rightarrow> py_error + 'b) \<Rightarrow> py_error + 'b" where
  "bind_err m f = (case m of Inl e \<Rightarrow> Inl e | Inr x \<Rightarrow> f x)"

text \<open>
  The stage calls of \<^verbatim>\<open>calculate\<close> (from \<^verbatim>\<open>DCAnalysis\<close> to
  \<^verbatim>\<open>ACLoadline\<close>), each consuming what the earlier ones returned. An exception
  of a stage leaves \<^verbatim>\<open>calculate\<close> at once.
\<close>

definition calculate_stages :: "input \<Rightarrow> py_error + results" where
  "calculate_stages inp =
    bind_err (DCAnalysis_App (i_VCC inp) (i_Beta inp) (i_RS inp) (i_R1 inp) (i_R2 inp)
                (i_RE1 inp) (i_RE2 inp) (i_RC inp) (i_RL inp))
      (\<lambda>(VB, VE, ICEQ, VC, VCEQ).
    bind_err (ACAnalysis_App ICEQ (i_VCC inp) (i_Beta inp) (i_RS inp) (i_R1 inp) (i_R2 inp)
                (i_RE1 inp) (i_RE2 inp) (i_RC inp) (i_RL inp) (i_Zg inp) (i_Vs inp)
                (i_VA inp) (i_Frequency inp))
      (\<lambda>(ro, re, rc, Zbase, Zin, Zout, Vin, Av, Vout).
    bind_err (Qpoint_App (i_VCC inp) VE rc (i_RC inp))
      (\<lambda>REop.
    let Mpp = MPP_App VCEQ ICEQ rc in
    bind_err (CurrentDrain_App (i_VCC inp) ICEQ (i_R1 inp) (i_R2 inp))
      (\<lambda>(Ibias, IS).
    bind_err (Power_App VCEQ ICEQ Mpp (i_RL inp) (i_VCC inp) IS)
      (\<lambda>(PD, PL, PS, Efficiency).
    bind_err (DCLoadline_App (i_VCC inp) VE (i_RC inp))
      (\<lambda>(VCEcutoff, ICsaturation).
    bind_err (ACLoadline_App VCEQ ICEQ rc)
      (\<lambda>(ACcutoff, ACsaturation).
    Inr \<lparr> r_VB = VB, r_VE = VE, r_ICEQ = ICEQ, r_VC = VC, r_VCEQ = VCEQ,
          r_ro = ro, r_re = re, r_rc = rc, r_Zbase = Zbase, r_Zin = Zin, r_Zout = Zout,
          r_Vin = Vin, r_Av = Av, r_Vout = Vout, r_REop = REop, r_Mpp = Mpp,
          r_Ibias = Ibias, r_IS = IS, r_PD = PD, r_PL = PL, r_PS = PS,
          r_Efficiency = Efficiency, r_VCEcutoff = VCEcutoff,
          r_ICsaturation = ICsaturation, r_ACcutoff = ACcutoff,
          r_ACsaturation = ACsaturation \<rparr>)))))))"



subsection \<open>The script variant (CommonEmitterAnalysis.py)\<close>

text \<open>
  The script's stage functions print what they compute, and the script shows its two
  figures with \<^verbatim>\<open>plt.show()\<close>. A stage of the script returns the list of what
  it has written, in order, together with its result or exception: what was written
  before an exception stays written.
\<close>

datatype written =
    PFloat real
  | PBool bool
  | PStr string
  | PFmt string real string
  | Shown_loadline loadline_plot
  | Shown_waveform "real list \<times> real list \<times> real list"

text \<open>
  The module-level names that the script's functions read without taking them as
  parameters. \<^verbatim>\<open>rc\<close> and \<^verbatim>\<open>Mpp\<close> are assigned only in the course of
  the run, so they are optional: reading one that is not yet bound raises
  \<^verbatim>\<open>NameError\<close>.
\<close>

record globals =
  g_VCC :: real
  g_RC :: real
  g_R1 :: real
  g_R2 :: real
  g_RL :: real
  g_rc :: "real option"
  g_Mpp :: "real option"

definition StiffDivider ::
  "real \<Rightarrow> real \<Rightarrow> real \<Rightarrow> real \<Rightarrow> real \<Rightarrow> written list \<times> (py_error + unit)" where
  "StiffDivider Beta RE1 RE2 R1 R2 =
    (let A = Beta * (RE1 + RE2) in
     if R1 = 0 \<or> R2 = 0 \<or> (1 / R1) + (1 / R2) = 0 then ([], Inl ZeroDivisionError) else
     let B = 10 * (1 / ((1 / R1) + (1 / R2)));
         StiffDivider = PBool (A \<ge> B);
         StiffDivider = (if StiffDivider = PBool False then PStr ''True'' else StiffDivider) in
     ([StiffDivider], Inr ()))"

definition DCAnalysis_Script ::
  "real \<Rightarrow> real \<Rightarrow> real \<Rightarrow> real \<Rightarrow> real \<Rightarrow> real \<Rightarrow> real \<Rightarrow> real \<Rightarrow> real
    \<Rightarrow> written list \<times> (py_error + (real \<times> real \<times> real \<times> real))" where
  "DCAnalysis_Script VCC Beta RS R1 R2 RE1 RE2 RC RL =
    (if R2 + R1 = 0 then ([], Inl ZeroDivisionError) else
     let VB = VCC * (R2 / (R2 + R1));
         VE = VB - 0.7 in
     if RE1 + RE2 = 0 then ([PFloat VB, PFloat VE], Inl ZeroDivisionError) else
     let ICEQ = VE / (RE1 + RE2);
         VC = VCC - (ICEQ * RC);
         VCEQ = VC - VE in
     ([PFloat VB, PFloat VE, PFloat ICEQ, PFloat VC, PFloat VCEQ],
      Inr (VE, ICEQ, VC, VCEQ)))"

definition ACAnalysis_Script ::
  "real \<Rightarrow> real \<Rightarrow> real \<Rightarrow> real \<Rightarrow> real \<Rightarrow> real \<Rightarrow> real \<Rightarrow> real \<Rightarrow> real \<Rightarrow> real
    \<Rightarrow> real \<Rightarrow> real \<Rightarrow> real \<Rightarrow> real
    \<Rightarrow> written list
        \<times> (py_error + (real \<times> real \<times> real \<times> real \<times> real \<times> real \<times> real \<times> real \<times> real))" where
  "ACAnalysis_Script ICEQ VCC Beta RS R1 R2 RE1 RE2 RC RL Zg Vs VA Frequency =
    (if ICEQ = 0 then ([], Inl ZeroDivisionError) else
     let ro = VA / ICEQ;
         re = 0.025 / ICEQ in
     if RC = 0 \<or> RL = 0 \<or> (1 / RC) + (1 / RL) = 0
     then ([PFloat ro, PFloat re], Inl ZeroDivisionError) else
     let rc = 1 / ((1 / RC) + (1 / RL));
         Zbase = (RE1 + re) * Beta in
     if R1 = 0 \<or> R2 = 0 \<or> Beta * (RE1 + re) = 0
        \<or> (1 / R1) + (1 / R2) + (1 / (Beta * (RE1 + re))) = 0
     then ([PFloat ro, PFloat re, PFloat rc, PFloat Zbase], Inl ZeroDivisionError) else
     let Zin = RS + (1 / ((1 / R1) + (1 / R2) + (1 / (Beta * (RE1 + re))))) in
     if ro = 0 \<or> (1 / RC) + (1 / RL) + (1 / ro) = 0
     then ([PFloat ro, PFloat re, PFloat rc, PFloat Zbase, PFloat Zin],
           Inl ZeroDivisionError) else
     let Zout = 1 / ((1 / RC) + (1 / RL) + (1 / ro)) in
     if Zin + Zg + RS = 0
     then ([PFloat ro, PFloat re, PFloat rc, PFloat Zbase, PFloat Zin, PFloat Zout],
           Inl ZeroDivisionError) else
     let Vin = Vs * (Zin / (Zin + Zg + RS)) in
     if RE1 + re = 0
     then ([PFloat ro, PFloat re, PFloat rc, PFloat Zbase, PFloat Zin, PFloat Zout,
            PFloat Vin], Inl ZeroDivisionError) else
     let Av = rc / (RE1 + re);
         Vout = Av * Vin in
     ([PFloat ro, PFloat re, PFloat rc, PFloat Zbase, PFloat Zin, PFloat Zout,
       PFloat Vin, PFloat Av, PFloat Vout],
      Inr (ro, re, rc, Zbase, Zin, Zout, Vin, Av, Vout)))"

definition Qpoint_Script :: "globals \<Rightarrow> real \<Rightarrow> real \<Rightarrow> written list \<times> (py_error + real)" where
  "Qpoint_Script g VE rc =
    (if g_VCC g - VE = 0 then ([], Inl ZeroDivisionError) else
     let REop = VE * (g_RC g + rc) / (g_VCC g - VE) in
     ([PFloat REop], Inr REop))"

definition MPP_Script :: "real \<Rightarrow> real \<Rightarrow> real \<Rightarrow> written list \<times> (py_error + real)" where
  "MPP_Script VCEQ ICEQ rc =
    (let Mpp = min (2 * (ICEQ * rc)) (2 * VCEQ) in
     ([PFloat Mpp], Inr Mpp))"

definition CurrentDrain_Script ::
  "globals \<Rightarrow> real \<Rightarrow> written list \<times> (py_error + (real \<times> real))" where
  "CurrentDrain_Script g ICEQ =
    (if g_R1 g + g_R2 g = 0 then ([], Inl ZeroDivisionError) else
     let Ibias = g_VCC g / (g_R1 g + g_R2 g);
         IS = Ibias + ICEQ in
     ([PFloat Ibias, PFloat IS], Inr (Ibias, IS)))"

definition Power_Script ::
  "globals \<Rightarrow> real \<Rightarrow> real \<Rightarrow> real
    \<Rightarrow> written list \<times> (py_error + (real \<times> real \<times> real \<times> real))" where
  "Power_Script g VCEQ ICEQ IS =
    (let PD = VCEQ * ICEQ in
     case g_Mpp g of
       None \<Rightarrow> ([PFloat PD], Inl NameError)
     | Some Mpp \<Rightarrow>
        if 8 * g_RL g = 0 then ([PFloat PD], Inl ZeroDivisionError) else
        let PL = (Mpp ^ 2) / (8 * g_RL g);
            PS = g_VCC g * IS in
        if PS = 0 then ([PFloat PD, PFloat PL, PFloat PS], Inl ZeroDivisionError) else
        let Efficiency = PL / PS * 100 in
        ([PFloat PD, PFloat PL, PFloat PS, PFloat Efficiency],
         Inr (PD, PL, PS, Efficiency)))"

definition DCLoadline_Script ::
  "globals \<Rightarrow> real \<Rightarrow> written list \<times> (py_error + (real \<times> real))" where
  "DCLoadline_Script g VE =
    (let VCEcutoff = g_VCC g - VE in
     if g_RC g = 0
     then ([PFmt ''VCEcutoff: '' VCEcutoff '' V''], Inl ZeroDivisionError) else
     let ICsaturation = (g_VCC g - VE) / g_RC g in
     ([PFmt ''VCEcutoff: '' VCEcutoff '' V'', PFmt ''ICsaturation: '' ICsaturation '' A''],
      Inr (VCEcutoff, ICsaturation)))"

definition ACLoadline_Script ::
  "real \<Rightarrow> real \<Rightarrow> real \<Rightarrow> written list \<times> (py_error + (real \<times> real))" where
  "ACLoadline_Script VCEQ ICEQ rc =
    (let ACcutoff = VCEQ + (ICEQ * rc) in
     if rc = 0
     then ([PFmt ''ACcutoff: '' ACcutoff '' A''], Inl ZeroDivisionError) else
     let ACsaturation = ICEQ + (VCEQ / rc) in
     ([PFmt ''ACcutoff: '' ACcutoff '' A'', PFmt ''ACsaturation: '' ACsaturation '' A''],
      Inr (ACcutoff, ACsaturation)))"

definition Loadlineplot_Script ::
  "globals \<Rightarrow> real \<Rightarrow> real \<Rightarrow> real \<Rightarrow> real \<Rightarrow> written list \<times> (py_error + unit)" where
  "Loadlineplot_Script g VCEcutoff ICsaturation ACcutoff ACsaturation =
    (case g_rc g of
       None \<Rightarrow> ([], Inl NameError)
     | Some rc \<Rightarrow>
        if rc = 0 then ([], Inl ZeroDivisionError) else
        ([Shown_loadline
            \<lparr> xDC = np_linspace 0 VCEcutoff,
              yDC = np_linspace ICsaturation 0,
              xAC = np_linspace ACcutoff 0,
              yAC = np_linspace 0 ACsaturation,
              xlim = (0, g_VCC g),
              ylim = (0, g_VCC g / rc) \<rparr>], Inr ()))"

definition Waveforms_Script ::
  "real \<Rightarrow> real \<Rightarrow> real \<Rightarrow> real \<Rightarrow> written list \<times> (py_error + unit)" where
  "Waveforms_Script Duration Frequency Vs Vout =
    (let T1 = Duration;
         fs1 = 50 * Frequency in
     if fs1 = 0 then ([], Inl ZeroDivisionError) else
     let Ts1 = 1 / fs1;
         t1 = np_arange 0 (T1 + Ts1) Ts1;
         a1 = map (\<lambda>t. Vs * sin (2 * pi * Frequency * t)) t1;
         a2 = map (\<lambda>t. -1 * Vout * sin (2 * pi * Frequency * t)) t1 in
     ([Shown_waveform (t1, a1, a2)], Inr ()))"



subsection \<open>Concrete inputs\<close>

text \<open>The values that the application inserts into its fourteen entries at start-up.\<close>

definition reference_input :: input where
  "reference_input =
    \<lparr> i_VCC = 20, i_RS = 8000, i_R1 = 10000000, i_R2 = 620000, i_RE1 = 270, i_RE2 = 430,
      i_RC = 24000, i_RL = 2700, i_Beta = 380, i_VA = 100, i_Zg = 50, i_Vs = 0.01,
      i_Frequency = 1000, i_Duration = 0.002 \<rparr>"

text \<open>What the stages of \<^verbatim>\<open>calculate\<close> return at the start-up values, as exact fractions.\<close>

definition reference_results :: results where
  "reference_results =
    \<lparr> r_VB = 620 / 531, r_VE = 2483 / 5310, r_ICEQ = 2483 / 3717000,
      r_VC = 4916 / 1239, r_VCEQ = 130099 / 37170,
      r_ro = 371700000 / 2483, r_re = 92925 / 2483, r_rc = 216000 / 89,
      r_Zbase = 290067300 / 2483, r_Zin = 973109088904000 / 9237557363,
      r_Zout = 2230200000 / 933823,
      r_Vin = 973109088904 / 104747142567615, r_Av = 11918400 / 1509707,
      r_Vout = 773193557679562240 / 10542499624288422587,
      r_REop = 5840016000 / 9230813, r_Mpp = 119184 / 36757,
      r_Ibias = 1 / 531000, r_IS = 83 / 123900,
      r_PD = 323035817 / 138160890000, r_PL = 49322312 / 101330778675,
      r_PS = 83 / 6195, r_Efficiency = 986446240 / 271523959,
      r_VCEcutoff = 103717 / 5310, r_ICsaturation = 103717 / 127440000,
      r_ACcutoff = 16942091 / 3308130,
      r_ACsaturation = 16942091 / 8028720000 \<rparr>"

text \<open>
  A circuit whose collector resistor is so large that the computed collector voltage
  is negative (the transistor is saturated): all resistances and currents are positive.
\<close>

definition saturated_input :: input where
  "saturated_input =
    \<lparr> i_VCC = 2, i_RS = 1, i_R1 = 1, i_R2 = 1, i_RE1 = 0.1, i_RE2 = 0.2,
      i_RC = 100, i_RL = 1, i_Beta = 100, i_VA = 100, i_Zg = 1, i_Vs = 1,
      i_Frequency = 1000, i_Duration = 0.002 \<rparr>"

definition saturated_results :: results where
  "saturated_results =
    \<lparr> r_VB = 1, r_VE = 3 / 10, r_ICEQ = 1, r_VC = - 98,
      r_VCEQ = - (983 / 10), r_ro = 100, r_re = 1 / 40, r_rc = 100 / 101,
      r_Zbase = 25 / 2, r_Zin = 77 / 52, r_Zout = 50 / 51,
      r_Vin = 77 / 181, r_Av = 800 / 101, r_Vout = 61600 / 18281,
      r_REop = 1800 / 101, r_Mpp = - (983 / 5), r_Ibias = 1, r_IS = 2,
      r_PD = - (983 / 10), r_PL = 966289 / 200, r_PS = 4,
      r_Efficiency = 966289 / 8, r_VCEcutoff = 17 / 10,
      r_ICsaturation = 17 / 1000, r_ACcutoff = - (98283 / 1010),
      r_ACsaturation = - (98283 / 1000) \<rparr>"



section \<open>Properties\<close>

subsection \<open>Auxiliary facts\<close>

lemma bind_err_Inr: "bind_err m f = Inr y \<longleftrightarrow> (\<exists>x. m = Inr x \<and> f x = Inr y)"
  by (cases m) (simp_all add: bind_err_def)

text \<open>When the stages of \<^verbatim>\<open>calculate\<close> all return, every label value is what its stage returned.\<close>

lemma calculate_stagesD:
  assumes "calculate_stages inp = Inr r"
  shows "DCAnalysis_App (i_VCC inp) (i_Beta inp) (i_RS inp) (i_R1 inp) (i_R2 inp)
           (i_RE1 inp) (i_RE2 inp) (i_RC inp) (i_RL inp)
         = Inr (r_VB r, r_VE r, r_ICEQ r, r_VC r, r_VCEQ r)"
    and "ACAnalysis_App (r_ICEQ r) (i_VCC inp) (i_Beta inp) (i_RS inp) (i_R1 inp) (i_R2 inp)
           (i_RE1 inp) (i_RE2 inp) (i_RC inp) (i_RL inp) (i_Zg inp) (i_Vs inp)
           (i_VA inp) (i_Frequency inp)
         = Inr (r_ro r, r_re r, r_rc r, r_Zbase r, r_Zin r, r_Zout r, r_Vin r, r_Av r, r_Vout r)"
    and "Qpoint_App (i_VCC inp) (r_VE r) (r_rc r) (i_RC inp) = Inr (r_REop r)"
    and "r_Mpp r = MPP_App (r_VCEQ r) (r_ICEQ r) (r_rc r)"
    and "CurrentDrain_App (i_VCC inp) (r_ICEQ r) (i_R1 inp) (i_R2 inp)
         = Inr (r_Ibias r, r_IS r)"
    and "Power_App (r_VCEQ r) (r_ICEQ r) (r_Mpp r) (i_RL inp) (i_VCC inp) (r_IS r)
         = Inr (r_PD r, r_PL r, r_PS r, r_Efficiency r)"
    and "DCLoadline_App (i_VCC inp) (r_VE r) (i_RC inp) = Inr (r_VCEcutoff r, r_ICsaturation r)"
    and "ACLoadline_App (r_VCEQ r) (r_ICEQ r) (r_rc r) = Inr (r_ACcutoff r, r_ACsaturation r)"
  using assms
  by (auto simp: calculate_stages_def bind_err_Inr Let_def split: prod.splits)

lemma DCAnalysis_App_InrD:
  assumes "DCAnalysis_App VCC Beta RS R1 R2 RE1 RE2 RC RL = Inr (VB, VE, ICEQ, VC, VCEQ)"
  shows "RE1 + RE2 \<noteq> 0" and "ICEQ = VE / (RE1 + RE2)" and "VCEQ = VCC - ICEQ * RC - VE"
  using assms by (auto simp: DCAnalysis_App_def Let_def split: if_splits)

lemma ACAnalysis_App_rc:
  assumes "ACAnalysis_App ICEQ VCC Beta RS R1 R2 RE1 RE2 RC RL Zg Vs VA Frequency
            = Inr (ro, re, rc, Zbase, Zin, Zout, Vin, Av, Vout)"
  shows "rc = 1 / (1 / RC + 1 / RL)"
  using assms by (auto simp: ACAnalysis_App_def Let_def split: if_splits)

lemma CurrentDrain_App_InrD:
  assumes "CurrentDrain_App VCC ICEQ R1 R2 = Inr (Ibias, IS)"
  shows "IS = Ibias + ICEQ"
  using assms by (auto simp: CurrentDrain_App_def Let_def split: if_splits)

lemma Power_App_InrD:
  assumes "Power_App VCEQ ICEQ Mpp RL VCC IS = Inr (PD, PL, PS, Efficiency)"
  shows "PL = Mpp ^ 2 / (8 * RL)" and "PS = VCC * IS" and "Efficiency = PL / PS * 100"
  using assms by (auto simp: Power_App_def Let_def split: if_splits)

lemma reference_run: "calculate_stages reference_input = Inr reference_results"
  by (simp add: calculate_stages_def reference_input_def reference_results_def bind_err_def
      DCAnalysis_App_def ACAnalysis_App_def Qpoint_App_def MPP_App_def CurrentDrain_App_def
      Power_App_def DCLoadline_App_def ACLoadline_App_def Let_def power2_eq_square)

lemma saturated_run: "calculate_stages saturated_input = Inr saturated_results"
  by (simp add: calculate_stages_def saturated_input_def saturated_results_def bind_err_def
      DCAnalysis_App_def ACAnalysis_App_def Qpoint_App_def MPP_App_def CurrentDrain_App_def
      Power_App_def DCLoadline_App_def ACLoadline_App_def Let_def power2_eq_square)

subsection \<open>Maximum peak-to-peak swing\<close>

text \<open>
  Claim C1. For every input, the MPP stage returns
  \<open>Mpp = min (2 * ICEQ * rc) (2 * VCEQ)\<close>: exactly the smaller of the current-limited
  and the voltage-limited bound, with no averaging and no other combination, whichever
  of the two is the smaller and also when they are equal. This holds for the
  application's \<^verbatim>\<open>MPP\<close> and for the script's, which also prints the value.
\<close>

theorem MPP_is_min:
  "MPP_App VCEQ ICEQ rc = min (2 * ICEQ * rc) (2 * VCEQ)
   \<and> MPP_Script VCEQ ICEQ rc
       = ([PFloat (min (2 * ICEQ * rc) (2 * VCEQ))], Inr (min (2 * ICEQ * rc) (2 * VCEQ)))
   \<and> MPP_App VCEQ ICEQ rc
       = (if 2 * ICEQ * rc < 2 * VCEQ then 2 * ICEQ * rc else 2 * VCEQ)"
  by (simp add: MPP_App_def MPP_Script_def Let_def min_def mult.assoc)

text \<open>
  The three cases at concrete values: the current-limited bound wins
  (\<open>2 * 1 * 2 < 2 * 5\<close>), the voltage-limited bound wins (\<open>2 * 1 < 2 * 1 * 2\<close>), and a tie.
\<close>

theorem MPP_is_min_witness:
  "MPP_App 5 1 2 = 4 \<and> MPP_App 1 1 2 = 2 \<and> MPP_App 2 1 2 = 4"
  using MPP_is_min [of 5 1 2] MPP_is_min [of 1 1 2] MPP_is_min [of 2 1 2] by simp

subsection \<open>DC stage\<close>

text \<open>
  Claim C2. For every input with \<open>R1 + R2 \<noteq> 0\<close> and \<open>RE1 + RE2 \<noteq> 0\<close> the DC stage
  returns exactly \<open>VB = VCC * R2 / (R1 + R2)\<close>, \<open>VE = VB - 0.7\<close>,
  \<open>ICEQ = VE / (RE1 + RE2)\<close>, \<open>VC = VCC - ICEQ * RC\<close> and \<open>VCEQ = VC - VE\<close>. The
  application's \<^verbatim>\<open>DCAnalysis\<close> returns the five values; the script's prints the
  five and returns the last four.
\<close>

theorem DCAnalysis_equations:
  assumes "R1 + R2 \<noteq> 0" and "RE1 + RE2 \<noteq> 0"
  shows "let VB = VCC * R2 / (R1 + R2);
             VE = VB - 0.7;
             ICEQ = VE / (RE1 + RE2);
             VC = VCC - ICEQ * RC;
             VCEQ = VC - VE in
         DCAnalysis_App VCC Beta RS R1 R2 RE1 RE2 RC RL = Inr (VB, VE, ICEQ, VC, VCEQ)
         \<and> DCAnalysis_Script VCC Beta RS R1 R2 RE1 RE2 RC RL
             = ([PFloat VB, PFloat VE, PFloat ICEQ, PFloat VC, PFloat VCEQ],
                Inr (VE, ICEQ, VC, VCEQ))"
  using assms by (simp add: DCAnalysis_App_def DCAnalysis_Script_def Let_def add.commute)

theorem DCAnalysis_equations_witness:
  "(30 :: real) + 10 \<noteq> 0 \<and> (1 :: real) + 8 \<noteq> 0
   \<and> DCAnalysis_App 10 100 1 30 10 1 8 10 10 = Inr (5/2, 9/5, 1/5, 8, 31/5)
   \<and> DCAnalysis_Script 10 100 1 30 10 1 8 10 10
       = ([PFloat (5/2), PFloat (9/5), PFloat (1/5), PFloat 8, PFloat (31/5)],
          Inr (9/5, 1/5, 8, 31/5))"
  using DCAnalysis_equations [of 30 10 1 8 10 10 100 1 10] by (simp add: Let_def)

subsection \<open>Load lines\<close>

text \<open>
  Claim C10. For every input with \<open>RC \<noteq> 0\<close> and \<open>rc \<noteq> 0\<close> the load-line intercepts
  satisfy \<open>ICsaturation * RC = VCEcutoff\<close> and \<open>ACsaturation * rc = ACcutoff\<close>: the two
  numbers of each returned pair lie on one line of slope \<open>- 1 / RC\<close> (DC) or
  \<open>- 1 / rc\<close> (AC). The script's \<^verbatim>\<open>DCLoadline\<close> reads \<open>VCC\<close> and \<open>RC\<close> from the
  globals and returns the same pair.
\<close>

theorem loadline_intercepts:
  assumes "RC \<noteq> 0" and "rc \<noteq> 0"
  shows "DCLoadline_App VCC VE RC = Inr (VCC - VE, (VCC - VE) / RC)
         \<and> snd (DCLoadline_Script (g\<lparr>g_VCC := VCC, g_RC := RC\<rparr>) VE)
             = Inr (VCC - VE, (VCC - VE) / RC)
         \<and> ((VCC - VE) / RC) * RC = VCC - VE
         \<and> ACLoadline_App VCEQ ICEQ rc = Inr (VCEQ + ICEQ * rc, ICEQ + VCEQ / rc)
         \<and> snd (ACLoadline_Script VCEQ ICEQ rc) = Inr (VCEQ + ICEQ * rc, ICEQ + VCEQ / rc)
         \<and> (ICEQ + VCEQ / rc) * rc = VCEQ + ICEQ * rc"
  using assms
  by (simp add: DCLoadline_App_def ACLoadline_App_def DCLoadline_Script_def
      ACLoadline_Script_def Let_def field_simps)

theorem loadline_intercepts_witness:
  "(10 :: real) \<noteq> 0 \<and> (5 :: real) \<noteq> 0
   \<and> DCLoadline_App 10 (9/5) 10 = Inr (41/5, 41/50)
   \<and> snd (DCLoadline_Script
             \<lparr> g_VCC = 10, g_RC = 10, g_R1 = 30, g_R2 = 10, g_RL = 10,
               g_rc = None, g_Mpp = None \<rparr> (9/5)) = Inr (41/5, 41/50)
   \<and> (41/50 :: real) * 10 = 41/5
   \<and> ACLoadline_App (31/5) (1/5) 5 = Inr (36/5, 36/25)
   \<and> (36/25 :: real) * 5 = 36/5"
  using loadline_intercepts [of 10 5 10 "9/5"
      "\<lparr> g_VCC = 0, g_RC = 0, g_R1 = 30, g_R2 = 10, g_RL = 10, g_rc = None, g_Mpp = None \<rparr>"
      "31/5" "1/5"]
  by simp

subsection \<open>DC stage at the start-up values\<close>

text \<open>
  Claim C5, as the specification states it, fails: at the reference inputs
  (\<open>VCC = 20\<close>, \<open>Beta = 380\<close>, \<open>RS = 8000\<close>, \<open>R1 = 1e7\<close>, \<open>R2 = 620000\<close>, \<open>RE1 = 270\<close>,
  \<open>RE2 = 430\<close>, \<open>RC = 24000\<close>, \<open>RL = 2700\<close>) the DC stage returns \<open>VB = 620 / 531\<close>, and the
  values it returns are not near \<open>1.2258\<close>, \<open>0.5258\<close>, \<open>0.000752\<close> and \<open>1.9786\<close>: they miss
  them by more than \<open>0.05\<close>, \<open>0.05\<close>, \<open>0.00008\<close> and \<open>1.9\<close>.
\<close>

theorem spec_DC_values_counterexample:
  "DCAnalysis_App 20 380 8000 10000000 620000 270 430 24000 2700
     = Inr (620 / 531, 2483 / 5310, 2483 / 3717000, 4916 / 1239, 130099 / 37170)
   \<and> \<bar>620 / 531 - 1.2258 :: real\<bar> > 0.05
   \<and> \<bar>2483 / 5310 - 0.5258 :: real\<bar> > 0.05
   \<and> \<bar>2483 / 3717000 - 0.000752 :: real\<bar> > 0.00008
   \<and> \<bar>4916 / 1239 - 1.9786 :: real\<bar> > 1.9"
  by (simp add: DCAnalysis_App_def Let_def)

text \<open>
  Claim C5, amended. At the reference inputs the DC stage produces
  \<open>VB \<approx> 1.1676\<close>, \<open>VE \<approx> 0.4676\<close>, \<open>ICEQ \<approx> 0.000668\<close> and \<open>VC \<approx> 3.9677\<close> (each within
  half a unit of its last digit); exactly, \<open>VB = 620 / 531\<close>, \<open>VE = 2483 / 5310\<close>,
  \<open>ICEQ = 2483 / 3717000\<close>, \<open>VC = 4916 / 1239\<close> and \<open>VCEQ = 130099 / 37170\<close>, in the
  application and in the script.
\<close>

theorem reference_DC_values:
  "DCAnalysis_App 20 380 8000 10000000 620000 270 430 24000 2700
     = Inr (620 / 531, 2483 / 5310, 2483 / 3717000, 4916 / 1239, 130099 / 37170)
   \<and> DCAnalysis_Script 20 380 8000 10000000 620000 270 430 24000 2700
     = ([PFloat (620 / 531), PFloat (2483 / 5310), PFloat (2483 / 3717000),
         PFloat (4916 / 1239), PFloat (130099 / 37170)],
        Inr (2483 / 5310, 2483 / 3717000, 4916 / 1239, 130099 / 37170))
   \<and> \<bar>620 / 531 - 1.1676 :: real\<bar> \<le> 0.00005
   \<and> \<bar>2483 / 5310 - 0.4676 :: real\<bar> \<le> 0.00005
   \<and> \<bar>2483 / 3717000 - 0.000668 :: real\<bar> \<le> 0.0000005
   \<and> \<bar>4916 / 1239 - 3.9677 :: real\<bar> \<le> 0.00005"
  by (simp add: DCAnalysis_App_def DCAnalysis_Script_def Let_def)

subsection \<open>AC stage\<close>

text \<open>
  Claim C3, as the specification states it, fails: its conditions (\<open>ICEQ \<noteq> 0\<close>, nonzero
  \<open>R1\<close>, \<open>R2\<close>, \<open>RC\<close>, \<open>RL\<close>, \<open>Beta * (RE1 + re)\<close> and nonzero reciprocal sums) leave out the
  divisor \<open>Zin + Zg + RS\<close> of \<open>Vin\<close>. With \<open>ICEQ = 1/40\<close>, \<open>Beta = 1\<close>, \<open>RS = 1\<close>,
  \<open>R1 = R2 = 4\<close>, \<open>RE1 = 1\<close>, \<open>RC = RL = 2\<close>, \<open>VA = 1\<close> and \<open>Zg = - 3\<close> all of them hold,
  \<open>Zin = 2\<close>, and the stage raises \<^verbatim>\<open>ZeroDivisionError\<close> instead of returning.
\<close>

theorem ACAnalysis_counterexample:
  "(1/40 :: real) \<noteq> 0 \<and> (4 :: real) \<noteq> 0 \<and> (2 :: real) \<noteq> 0
   \<and> (1 :: real) * (1 + 0.025 / (1/40)) \<noteq> 0
   \<and> (1 / 2 + 1 / 2 :: real) \<noteq> 0
   \<and> (1 / 4 + 1 / 4 + 1 / (1 * (1 + 0.025 / (1/40))) :: real) \<noteq> 0
   \<and> (1 / 2 + 1 / 2 + 1 / (1 / (1/40)) :: real) \<noteq> 0
   \<and> ACAnalysis_App (1/40) 20 1 1 4 4 1 1 2 2 (-3) 1 1 1000 = Inl ZeroDivisionError
   \<and> snd (ACAnalysis_Script (1/40) 20 1 1 4 4 1 1 2 2 (-3) 1 1 1000) = Inl ZeroDivisionError"
  by (simp add: ACAnalysis_App_def ACAnalysis_Script_def Let_def)

text \<open>
  Claim C3, amended. For every input with \<open>ICEQ \<noteq> 0\<close>, nonzero \<open>R1\<close>, \<open>R2\<close>, \<open>RC\<close>, \<open>RL\<close>,
  \<open>Beta * (RE1 + re)\<close>, nonzero reciprocal sums, and also \<open>VA \<noteq> 0\<close> (so that \<open>ro \<noteq> 0\<close>)
  and \<open>Zin + Zg + RS \<noteq> 0\<close>, the AC stage returns exactly \<open>ro = VA / ICEQ\<close>,
  \<open>re = 0.025 / ICEQ\<close>, \<open>rc = 1 / (1 / RC + 1 / RL)\<close>, \<open>Zbase = Beta * (RE1 + re)\<close>,
  \<open>Zin = RS + 1 / (1 / R1 + 1 / R2 + 1 / (Beta * (RE1 + re)))\<close>,
  \<open>Zout = 1 / (1 / RC + 1 / RL + 1 / ro)\<close>, \<open>Vin = Vs * Zin / (Zin + Zg + RS)\<close>,
  \<open>Av = rc / (RE1 + re)\<close> and \<open>Vout = Av * Vin\<close>; the script's stage also prints the nine
  values in this order.
\<close>

theorem ACAnalysis_equations:
  fixes ICEQ VCC Beta RS R1 R2 RE1 RE2 RC RL Zg Vs VA Frequency :: real
  defines "ro \<equiv> VA / ICEQ"
    and "re \<equiv> 0.025 / ICEQ"
    and "rc \<equiv> 1 / (1 / RC + 1 / RL)"
  defines "Zbase \<equiv> Beta * (RE1 + re)"
    and "Zin \<equiv> RS + 1 / (1 / R1 + 1 / R2 + 1 / (Beta * (RE1 + re)))"
    and "Zout \<equiv> 1 / (1 / RC + 1 / RL + 1 / ro)"
  defines "Vin \<equiv> Vs * Zin / (Zin + Zg + RS)"
    and "Av \<equiv> rc / (RE1 + re)"
  defines "Vout \<equiv> Av * Vin"
  assumes "ICEQ \<noteq> 0" and "R1 \<noteq> 0" and "R2 \<noteq> 0" and "RC \<noteq> 0" and "RL \<noteq> 0"
    and "Beta * (RE1 + re) \<noteq> 0"
    and "1 / RC + 1 / RL \<noteq> 0"
    and "1 / R1 + 1 / R2 + 1 / (Beta * (RE1 + re)) \<noteq> 0"
    and "1 / RC + 1 / RL + 1 / ro \<noteq> 0"
    and "VA \<noteq> 0"
    and "Zin + Zg + RS \<noteq> 0"
  shows "ACAnalysis_App ICEQ VCC Beta RS R1 R2 RE1 RE2 RC RL Zg Vs VA Frequency
           = Inr (ro, re, rc, Zbase, Zin, Zout, Vin, Av, Vout)
         \<and> ACAnalysis_Script ICEQ VCC Beta RS R1 R2 RE1 RE2 RC RL Zg Vs VA Frequency
           = ([PFloat ro, PFloat re, PFloat rc, PFloat Zbase, PFloat Zin, PFloat Zout,
               PFloat Vin, PFloat Av, PFloat Vout],
              Inr (ro, re, rc, Zbase, Zin, Zout, Vin, Av, Vout))"
proof -
  have ro0: "ro \<noteq> 0" using assms by (simp add: ro_def)
  have re0: "RE1 + re \<noteq> 0" using assms by auto
  show ?thesis
    unfolding ACAnalysis_App_def ACAnalysis_Script_def Let_def
    using assms(10-20) ro0 re0
    unfolding ro_def re_def rc_def Zbase_def Zin_def Zout_def Vin_def Av_def Vout_def
    by (simp add: mult.commute)
qed

theorem ACAnalysis_equations_witness:
  "ACAnalysis_App (1/40) 20 1 1 4 4 1 1 2 2 1 1 1 1000
     = Inr (40, 1, 1, 2, 2, 40/41, 1/2, 1/2, 1/4)
   \<and> ACAnalysis_Script (1/40) 20 1 1 4 4 1 1 2 2 1 1 1 1000
     = ([PFloat 40, PFloat 1, PFloat 1, PFloat 2, PFloat 2, PFloat (40/41),
         PFloat (1/2), PFloat (1/2), PFloat (1/4)],
        Inr (40, 1, 1, 2, 2, 40/41, 1/2, 1/2, 1/4))"
  using ACAnalysis_equations [of "1/40" 4 4 2 2 1 1 1 1 1 20 1 1 1000]
  by simp

subsection \<open>Power and efficiency\<close>

text \<open>
  Claim C6, as the specification states it, fails. At \<open>saturated_input\<close> every
  resistance is positive and so are \<open>ICEQ\<close>, \<open>Ibias\<close> and \<open>PS\<close>, but the collector
  resistor drops more than the supply: \<open>VCEQ = - 983 / 10\<close>, the minimum that \<^verbatim>\<open>MPP\<close>
  takes is the negative \<open>2 * VCEQ\<close>, its square is large, and the Power stage returns
  \<open>Efficiency = 966289 / 8\<close>, far above \<open>100\<close>.
\<close>

theorem Efficiency_counterexample:
  "calculate_stages saturated_input = Inr saturated_results
   \<and> 0 < i_RS saturated_input \<and> 0 < i_R1 saturated_input \<and> 0 < i_R2 saturated_input
   \<and> 0 < i_RE1 saturated_input \<and> 0 < i_RE2 saturated_input
   \<and> 0 < i_RC saturated_input \<and> 0 < i_RL saturated_input
   \<and> 0 < r_ICEQ saturated_results \<and> 0 < r_Ibias saturated_results
   \<and> 0 < r_PS saturated_results
   \<and> r_Efficiency saturated_results = 966289 / 8
   \<and> \<not> r_Efficiency saturated_results \<le> 100"
  using saturated_run by (simp add: saturated_input_def saturated_results_def)

text \<open>The parallel combination of two positive resistances is positive and below each of them.\<close>

lemma parallel_less:
  fixes RC RL :: real
  assumes "0 < RC" and "0 < RL"
  shows "0 < 1 / (1 / RC + 1 / RL)" and "1 / (1 / RC + 1 / RL) < RL"
proof -
  have eq: "1 / (1 / RC + 1 / RL) = RC * RL / (RC + RL)"
    using assms by (simp add: field_simps)
  show "0 < 1 / (1 / RC + 1 / RL)" unfolding eq using assms by simp
  have "RC * RL < RL * (RC + RL)" using assms by (simp add: algebra_simps)
  then show "1 / (1 / RC + 1 / RL) < RL"
    unfolding eq using assms by (simp add: field_simps)
qed

text \<open>
  The load power of a swing that is the smaller of \<open>2 * I * rc\<close> and \<open>2 * V\<close>, with
  \<open>0 \<le> V \<le> VCC\<close> and \<open>rc < RL\<close>, is at most the supply power.
\<close>

lemma swing_power_le:
  fixes I V rc RL VCC Ib :: real
  assumes I: "0 < I" and V: "0 \<le> V" and rc: "0 < rc" and rcRL: "rc < RL"
    and VV: "V \<le> VCC" and Ib: "0 < Ib"
  shows "(min (2 * (I * rc)) (2 * V)) ^ 2 / (8 * RL) \<le> VCC * (Ib + I)"
proof -
  let ?M = "min (2 * (I * rc)) (2 * V)"
  have M0: "0 \<le> ?M" using I V rc by simp
  have "?M * ?M \<le> (2 * (I * rc)) * (2 * V)"
    by (rule mult_mono) (use M0 I rc in simp_all)
  then have M2: "?M ^ 2 \<le> 4 * I * V * rc" by (simp add: power2_eq_square algebra_simps)
  have RL: "0 < RL" using rc rcRL by simp
  have IV: "0 \<le> I * V" using I V by simp
  have "4 * I * V * rc \<le> 4 * I * V * RL"
    using mult_left_mono [of rc RL "4 * (I * V)"] rcRL IV by (simp add: algebra_simps)
  with M2 have "?M ^ 2 \<le> 4 * I * V * RL" by linarith
  then have "?M ^ 2 / (8 * RL) \<le> I * V / 2"
    using RL by (simp add: field_simps)
  also have "\<dots> \<le> I * V" using IV by simp
  also have "\<dots> \<le> I * VCC" using I VV by simp
  also have "\<dots> \<le> VCC * (Ib + I)"
  proof -
    have "0 \<le> VCC" using V VV by simp
    then have "0 \<le> VCC * Ib" using Ib by simp
    then show ?thesis by (simp add: algebra_simps)
  qed
  finally show ?thesis .
qed

text \<open>
  Claim C6, amended. For every input with all resistances positive, \<open>ICEQ > 0\<close>,
  \<open>Ibias > 0\<close>, \<open>PS > 0\<close> and \<open>VCEQ \<ge> 0\<close> (the transistor is not saturated), the
  \<open>Efficiency\<close> returned by the Power stage lies in the closed interval from \<open>0\<close> to
  \<open>100\<close>.
\<close>

theorem Efficiency_in_range:
  assumes run: "calculate_stages inp = Inr r"
    and res: "0 < i_RS inp" "0 < i_R1 inp" "0 < i_R2 inp" "0 < i_RE1 inp" "0 < i_RE2 inp"
      "0 < i_RC inp" "0 < i_RL inp"
    and cur: "0 < r_ICEQ r" "0 < r_Ibias r"
    and PS: "0 < r_PS r"
    and VCEQ: "0 \<le> r_VCEQ r"
  shows "0 \<le> r_Efficiency r \<and> r_Efficiency r \<le> 100"
proof -
  note st = calculate_stagesD [OF run]
  have VE: "r_ICEQ r = r_VE r / (i_RE1 inp + i_RE2 inp)"
    and VCEQ_eq: "r_VCEQ r = i_VCC inp - r_ICEQ r * i_RC inp - r_VE r"
    using DCAnalysis_App_InrD [OF st(1)] by simp_all
  have rc_eq: "r_rc r = 1 / (1 / i_RC inp + 1 / i_RL inp)"
    using ACAnalysis_App_rc [OF st(2)] .
  have IS: "r_IS r = r_Ibias r + r_ICEQ r"
    using CurrentDrain_App_InrD [OF st(5)] .
  have PL: "r_PL r = r_Mpp r ^ 2 / (8 * i_RL inp)"
    and PS_eq: "r_PS r = i_VCC inp * r_IS r"
    and Eff: "r_Efficiency r = r_PL r / r_PS r * 100"
    using Power_App_InrD [OF st(6)] by simp_all
  have Mpp: "r_Mpp r = min (2 * (r_ICEQ r * r_rc r)) (2 * r_VCEQ r)"
    using st(4) by (simp add: MPP_App_def)
  have rc_pos: "0 < r_rc r" and rc_lt: "r_rc r < i_RL inp"
    unfolding rc_eq using parallel_less [OF res(6) res(7)] by simp_all
  have "r_VE r = r_ICEQ r * (i_RE1 inp + i_RE2 inp)"
    using VE res(4,5) by (simp add: field_simps)
  then have VE_pos: "0 < r_VE r" using cur(1) res(4,5) by simp
  have "0 < r_ICEQ r * i_RC inp" using cur(1) res(6) by simp
  with VCEQ_eq VE_pos have V_le: "r_VCEQ r \<le> i_VCC inp" by linarith
  have "r_PL r \<le> i_VCC inp * (r_Ibias r + r_ICEQ r)"
    unfolding PL Mpp
    by (rule swing_power_le [OF cur(1) VCEQ rc_pos rc_lt V_le cur(2)])
  then have PL_le: "r_PL r \<le> r_PS r" by (simp add: PS_eq IS)
  have PL_ge: "0 \<le> r_PL r" unfolding PL using res(7) by simp
  show ?thesis
    unfolding Eff using PL_le PL_ge PS by (simp add: field_simps)
qed

text \<open>The start-up values of the application satisfy every hypothesis; there \<open>Efficiency \<approx> 3.63\<close>.\<close>

theorem Efficiency_in_range_witness:
  "calculate_stages reference_input = Inr reference_results
   \<and> 0 < r_ICEQ reference_results \<and> 0 < r_Ibias reference_results
   \<and> 0 < r_PS reference_results \<and> 0 \<le> r_VCEQ reference_results
   \<and> r_Efficiency reference_results = 986446240 / 271523959
   \<and> 0 \<le> r_Efficiency reference_results \<and> r_Efficiency reference_results \<le> 100"
proof -
  have inputs: "0 < i_RS reference_input" "0 < i_R1 reference_input"
    "0 < i_R2 reference_input" "0 < i_RE1 reference_input" "0 < i_RE2 reference_input"
    "0 < i_RC reference_input" "0 < i_RL reference_input"
    by (simp_all add: reference_input_def)
  have outputs: "0 < r_ICEQ reference_results" "0 < r_Ibias reference_results"
    "0 < r_PS reference_results" "0 \<le> r_VCEQ reference_results"
    "r_Efficiency reference_results = 986446240 / 271523959"
    by (simp_all add: reference_results_def)
  from Efficiency_in_range [OF reference_run inputs outputs(1-4)] reference_run outputs
  show ?thesis by blast
qed

subsection \<open>Waveform time grid\<close>






subsection \<open>Stiff-divider check\<close>

text \<open>
  Claim C4 says that the stiff-divider check reports the boolean \<open>A \<ge> B\<close> unmodified,
  for both outcomes, where \<open>A = Beta * (RE1 + RE2)\<close> and
  \<open>B = 10 * (1 / (1 / R1 + 1 / R2))\<close>. The script's \<^verbatim>\<open>StiffDivider\<close> does not: when
  the comparison is false it replaces the result by the string \<^verbatim>\<open>'True'\<close> before
  printing it. At the start-up values \<open>A = 266000\<close> is below \<open>B\<close> (about \<open>5838041\<close>), the
  divider is not stiff, and the function prints \<^verbatim>\<open>True\<close>, as it does for the stiff
  divider \<open>Beta = 1\<close>, \<open>RE1 = 9\<close>, \<open>RE2 = 1\<close>, \<open>R1 = R2 = 2\<close>.
\<close>

theorem StiffDivider_reports_True_when_not_stiff:
  "\<not> ((380::real) * (270 + 430) \<ge> 10 * (1 / ((1 / 10000000) + (1 / 620000))))
   \<and> StiffDivider 380 270 430 10000000 620000 = ([PStr ''True''], Inr ())
   \<and> (1::real) * (9 + 1) \<ge> 10 * (1 / ((1 / 2) + (1 / 2)))
   \<and> StiffDivider 1 9 1 2 2 = ([PBool True], Inr ())"
  by (simp add: StiffDivider_def Let_def)

subsection \<open>The two variants compute the same\<close>

text \<open>
  Claim C9. With the script's module-level globals \<open>VCC\<close>, \<open>RC\<close>, \<open>R1\<close>, \<open>R2\<close>, \<open>RL\<close>,
  \<open>Mpp\<close> and \<open>rc\<close> bound to the values that the application passes as parameters, every
  stage of the script returns what the corresponding stage of the application returns
  (the same numbers, or the same exception). In particular the script's
  \<^verbatim>\<open>Qpoint(VE, rc)\<close> equals the application's \<^verbatim>\<open>Qpoint(VCC, VE, rc, RC)\<close>:
  \<open>REop = VE * (RC + rc) / (VCC - VE)\<close> with the same \<open>RC\<close> and \<open>VCC\<close>. The script's
  \<^verbatim>\<open>DCAnalysis\<close> returns the application's tuple without its first component
  \<open>VB\<close>, which it only prints.
\<close>

theorem script_stages_agree_with_App:
  fixes VCC RC R1 R2 RL rc Mpp :: real
  defines "g \<equiv> \<lparr> g_VCC = VCC, g_RC = RC, g_R1 = R1, g_R2 = R2, g_RL = RL,
                   g_rc = Some rc, g_Mpp = Some Mpp \<rparr>"
  shows "snd (Qpoint_Script g VE rc) = Qpoint_App VCC VE rc RC
       \<and> Qpoint_App VCC VE rc RC
           = (if VCC - VE = 0 then Inl ZeroDivisionError
              else Inr (VE * (RC + rc) / (VCC - VE)))
       \<and> snd (DCAnalysis_Script VCC Beta RS R1 R2 RE1 RE2 RC RL)
           = map_sum id (\<lambda>(VB, VE, ICEQ, VC, VCEQ). (VE, ICEQ, VC, VCEQ))
               (DCAnalysis_App VCC Beta RS R1 R2 RE1 RE2 RC RL)
       \<and> snd (ACAnalysis_Script ICEQ VCC Beta RS R1 R2 RE1 RE2 RC RL Zg Vs VA Frequency)
           = ACAnalysis_App ICEQ VCC Beta RS R1 R2 RE1 RE2 RC RL Zg Vs VA Frequency
       \<and> snd (MPP_Script VCEQ ICEQ rc) = Inr (MPP_App VCEQ ICEQ rc)
       \<and> snd (CurrentDrain_Script g ICEQ) = CurrentDrain_App VCC ICEQ R1 R2
       \<and> snd (Power_Script g VCEQ ICEQ IS) = Power_App VCEQ ICEQ Mpp RL VCC IS
       \<and> snd (DCLoadline_Script g VE) = DCLoadline_App VCC VE RC
       \<and> snd (ACLoadline_Script VCEQ ICEQ rc) = ACLoadline_App VCEQ ICEQ rc
       \<and> Loadlineplot_Script g VCEcutoff ICsaturation ACcutoff ACsaturation
           = (case Loadlineplot_App VCEcutoff ICsaturation ACcutoff ACsaturation VCC rc of
                Inl e \<Rightarrow> ([], Inl e) | Inr p \<Rightarrow> ([Shown_loadline p], Inr ()))
       \<and> Waveforms_Script Duration Frequency Vs Vout
           = (case Waveforms_App Duration Frequency Vs Vout of
                Inl e \<Rightarrow> ([], Inl e) | Inr w \<Rightarrow> ([Shown_waveform w], Inr ()))"
  unfolding g_def
  by (simp add: Qpoint_Script_def Qpoint_App_def DCAnalysis_Script_def DCAnalysis_App_def
      ACAnalysis_Script_def ACAnalysis_App_def MPP_Script_def MPP_App_def
      CurrentDrain_Script_def CurrentDrain_App_def Power_Script_def Power_App_def
      DCLoadline_Script_def DCLoadline_App_def ACLoadline_Script_def ACLoadline_App_def
      Loadlineplot_Script_def Loadlineplot_App_def Waveforms_Script_def Waveforms_App_def
      Let_def)

subsection \<open>Zero denominators\<close>



















end
